theory Spec2Isabelle
  imports Complex_Main
begin

section \<open>Data quality scoring engine\<close>

text \<open>
  The repository holds two implementations of the scoring engine:
  \<^item> \<^verbatim>\<open>backend/src/scoring-engine.ts\<close>: \<^verbatim>\<open>calculateCompleteness\<close>, \<^verbatim>\<open>calculateUniqueness\<close>,
    \<^verbatim>\<open>calculateConsistency\<close>, \<^verbatim>\<open>calculateValidity\<close>, \<^verbatim>\<open>calculateTimeliness\<close>,
    \<^verbatim>\<open>detectDateColumn\<close>, \<^verbatim>\<open>prepareMetadata\<close>, \<^verbatim>\<open>computeScores\<close>, \<^verbatim>\<open>calculateDQS\<close>;
  \<^item> \<^verbatim>\<open>data-quality-functions.js\<close>: \<^verbatim>\<open>computeCompleteness\<close>, \<^verbatim>\<open>computeUniqueness\<close>,
    \<^verbatim>\<open>computeConsistency\<close>, \<^verbatim>\<open>computeValidity\<close>, \<^verbatim>\<open>computeTimeliness\<close>,
    \<^verbatim>\<open>computeAllScores\<close>, \<^verbatim>\<open>DEFAULT_WEIGHTS\<close>, \<^verbatim>\<open>computeDQS\<close>.
  Both are embedded below, function by function, under the names of the source.

  Conventions of the embedding.
  \<^item> A JavaScript number is an exact rational (\<^typ>\<open>rat\<close>): the rounding of IEEE
    doubles is not modelled. Counters are \<^typ>\<open>nat\<close>, results of \<^verbatim>\<open>Math.round\<close> are
    \<^typ>\<open>int\<close>.
  \<^item> A string is a list of code units below 256 (\<^typ>\<open>string\<close>); its length is the
    length of the list, as \<^verbatim>\<open>.length\<close> counts code units.
  \<^item> A row is the list of its own properties, in the order \<^verbatim>\<open>Object.keys\<close>
    enumerates them; \<^verbatim>\<open>row[col]\<close> looks an own property up and is \<^verbatim>\<open>undefined\<close>
    (\<open>None\<close>) when the row has none of that name.
  \<^item> The clock (\<^verbatim>\<open>new Date()\<close>) and the date parser (\<^verbatim>\<open>new Date(s).getTime()\<close>,
    \<open>None\<close> for \<^verbatim>\<open>NaN\<close>) belong to the runtime; they are parameters \<open>now\<close> and
    \<open>parseDate\<close>, both in milliseconds.
\<close>

subsection \<open>Strings\<close>

definition isWhiteSpace :: "char \<Rightarrow> bool" where
  \<comment> \<open>the code units below 256 that \<^verbatim>\<open>String.prototype.trim\<close> strips\<close>
  "isWhiteSpace c =
     (c \<in> set [CHR 0x09, CHR 0x0A, CHR 0x0B, CHR 0x0C, CHR 0x0D, CHR 0x20, CHR 0xA0])"

definition trim :: "string \<Rightarrow> string" where
  "trim s = rev (dropWhile isWhiteSpace (rev (dropWhile isWhiteSpace s)))"

definition lowerChar :: "char \<Rightarrow> char" where
  "lowerChar c =
     (let n = (of_char c :: nat)
      in if (65 \<le> n \<and> n \<le> 90) \<or> (192 \<le> n \<and> n \<le> 222 \<and> n \<noteq> 215)
         then char_of (n + 32) else c)"

definition toLowerCase :: "string \<Rightarrow> string" where
  "toLowerCase s = map lowerChar s"

definition strIncludes :: "string \<Rightarrow> string \<Rightarrow> bool" where
  \<comment> \<open>\<^verbatim>\<open>s.includes(k)\<close>: \<open>k\<close> occurs in \<open>s\<close> at some offset\<close>
  "strIncludes s k = list_ex (\<lambda>i. take (length k) (drop i s) = k) [0..<Suc (length s)]"

subsection \<open>Rows and cells\<close>

type_synonym CSVRow = "(string \<times> string) list"

definition keys :: "CSVRow \<Rightarrow> string list" where
  \<comment> \<open>\<^verbatim>\<open>Object.keys(row)\<close>\<close>
  "keys row = map fst row"

definition cell :: "CSVRow \<Rightarrow> string \<Rightarrow> string option" where
  \<comment> \<open>\<^verbatim>\<open>row[col]\<close>\<close>
  "cell row col = map_of row col"

definition cellText :: "CSVRow \<Rightarrow> string \<Rightarrow> string" where
  \<comment> \<open>\<^verbatim>\<open>String(row[col] || "").trim()\<close>: \<^verbatim>\<open>undefined\<close> and \<^verbatim>\<open>""\<close> are falsy\<close>
  "cellText row col = trim (case cell row col of None \<Rightarrow> [] | Some v \<Rightarrow> v)"

definition cellNonEmpty :: "CSVRow \<Rightarrow> string \<Rightarrow> bool" where
  \<comment> \<open>\<^verbatim>\<open>value !== undefined && value !== null && String(value).trim() !== ""\<close>\<close>
  "cellNonEmpty row col =
     (case cell row col of None \<Rightarrow> False | Some v \<Rightarrow> trim v \<noteq> [])"

definition firstRowKeys :: "CSVRow list \<Rightarrow> string list" where
  \<comment> \<open>\<^verbatim>\<open>Object.keys(rows[0] || {})\<close>\<close>
  "firstRowKeys rows = (case rows of [] \<Rightarrow> [] | r # _ \<Rightarrow> keys r)"

subsection \<open>Numbers\<close>

definition jsRound :: "rat \<Rightarrow> int" where
  \<comment> \<open>\<^verbatim>\<open>Math.round\<close>: the nearest integer, a half rounded up\<close>
  "jsRound x = \<lfloor>x + 1 / 2\<rfloor>"

definition clamp100 :: "int \<Rightarrow> int" where
  \<comment> \<open>\<^verbatim>\<open>Math.max(0, Math.min(100, score))\<close>\<close>
  "clamp100 score = max 0 (min 100 score)"

definition sumNumbers :: "rat list \<Rightarrow> rat" where
  \<comment> \<open>\<^verbatim>\<open>xs.reduce((a, b) => a + b, 0)\<close>\<close>
  "sumNumbers xs = fold (\<lambda>b a. a + b) xs 0"

subsection \<open>The per-column loops shared by both implementations\<close>

definition columnValues :: "CSVRow list \<Rightarrow> string \<Rightarrow> string list" where
  \<comment> \<open>\<^verbatim>\<open>rows.map((row) => String(row[col] || "").trim()).filter((v) => v !== "")\<close>\<close>
  "columnValues rows col = filter (\<lambda>v. v \<noteq> []) (map (\<lambda>row. cellText row col) rows)"

definition setSize :: "string list \<Rightarrow> nat" where
  \<comment> \<open>\<^verbatim>\<open>new Set(values).size\<close>\<close>
  "setSize values = length (remdups values)"

definition countCells :: "CSVRow list \<Rightarrow> string list \<Rightarrow> nat \<times> nat" where
  \<comment> \<open>the nested loop of the completeness calculators: \<open>(totalCells, nonEmptyCells)\<close>\<close>
  "countCells rows columns =
     fold (\<lambda>row. fold (\<lambda>col (totalCells, nonEmptyCells).
             (totalCells + 1,
              if cellNonEmpty row col then nonEmptyCells + 1 else nonEmptyCells)) columns)
       rows (0, 0)"

definition lengthDeviation :: "string list \<Rightarrow> rat" where
  \<comment> \<open>the length statistics of the consistency calculators, for a non-empty \<open>values\<close>\<close>
  "lengthDeviation values =
     (let lengths = map (\<lambda>v. of_nat (length v)) values;
          avgLength = sumNumbers lengths / of_nat (length lengths);
          variance = fold (\<lambda>len sum. sum + \<bar>len - avgLength\<bar>) lengths 0
                       / of_nat (length lengths)
      in max 0 (100 - (variance / max avgLength 1) * 100))"

definition ageLoop ::
  "(string \<Rightarrow> int option) \<Rightarrow> int \<Rightarrow> CSVRow list \<Rightarrow> string \<Rightarrow> nat \<times> rat" where
  \<comment> \<open>the loop of the timeliness calculators: \<open>(validDates, totalAgeHours)\<close>\<close>
  "ageLoop parseDate now rows dateColumn =
     fold (\<lambda>row (validDates, totalAgeHours).
             let dateValue = cellText row dateColumn
             in if dateValue = [] then (validDates, totalAgeHours)
                else (case parseDate dateValue of
                        None \<Rightarrow> (validDates, totalAgeHours)
                      | Some t \<Rightarrow>
                          let ageMs = now - t;
                              ageHours = of_int ageMs / (1000 * 60 * 60)
                          in (validDates + 1, totalAgeHours + ageHours)))
       rows (0, 0)"

definition ageScore :: "rat \<Rightarrow> int" where
  \<comment> \<open>the threshold chain on \<open>avgAgeHours\<close>\<close>
  "ageScore avgAgeHours =
     (if avgAgeHours < 1 then 100
      else if avgAgeHours < 6 then 95
      else if avgAgeHours < 24 then 85
      else if avgAgeHours < 72 then 70
      else if avgAgeHours < 168 then 50
      else 30)"

definition dateKeywords :: "string list" where
  "dateKeywords = [''date'', ''time'', ''timestamp'', ''created'', ''updated'', ''modified'']"

definition matchesDateKeyword :: "string \<Rightarrow> bool" where
  \<comment> \<open>\<^verbatim>\<open>dateKeywords.some((keyword) => col.toLowerCase().includes(keyword))\<close>\<close>
  "matchesDateKeyword col = list_ex (\<lambda>keyword. strIncludes (toLowerCase col) keyword) dateKeywords"

definition uniquenessLoop :: "CSVRow list \<Rightarrow> string list \<Rightarrow> rat \<times> nat" where
  \<comment> \<open>the column loop of the uniqueness calculators: \<open>(totalUniqueness, columnCount)\<close>;
      \<^verbatim>\<open>calculateUniqueness\<close> writes the empty column as the else of a conditional
      expression, \<^verbatim>\<open>computeUniqueness\<close> as an early \<^verbatim>\<open>continue\<close>\<close>
  "uniquenessLoop rows columns =
     fold (\<lambda>col (totalUniqueness, columnCount).
             let values = columnValues rows col;
                 uniqueness = (if length values > 0
                               then (of_nat (setSize values) / of_nat (length values)) * 100
                               else 100)
             in (totalUniqueness + uniqueness, columnCount + 1))
       columns (0, 0)"

subsection \<open>\<^verbatim>\<open>scoring-engine.ts\<close>\<close>

definition calculateCompleteness :: "CSVRow list \<Rightarrow> string list \<Rightarrow> int" where
  "calculateCompleteness rows columns =
     (if rows = [] \<or> columns = [] then 0
      else let (totalCells, nonEmptyCells) = countCells rows columns
           in if totalCells = 0 then 0
              else jsRound ((of_nat nonEmptyCells / of_nat totalCells) * 100))"

definition calculateUniqueness :: "CSVRow list \<Rightarrow> string list \<Rightarrow> int" where
  "calculateUniqueness rows columns =
     (if rows = [] \<or> columns = [] then 0
      else let (totalUniqueness, columnCount) = uniquenessLoop rows columns
           in if columnCount = 0 then 0
              else jsRound (totalUniqueness / of_nat columnCount))"

definition calculateConsistency :: "CSVRow list \<Rightarrow> string list \<Rightarrow> int" where
  "calculateConsistency rows columns =
     (if rows = [] \<or> columns = [] then 0
      else let (totalConsistency, columnCount) =
                 fold (\<lambda>col (totalConsistency, columnCount).
                         let values = columnValues rows col
                         in if length values = 0
                            then (totalConsistency + 100, columnCount + 1)
                            else (totalConsistency + lengthDeviation values, columnCount + 1))
                   columns (0, 0 :: nat)
           in if columnCount = 0 then 0
              else jsRound (totalConsistency / of_nat columnCount))"

definition calculateValidity :: "CSVRow list \<Rightarrow> string list \<Rightarrow> int" where
  "calculateValidity rows columns =
     (if rows = [] then 0
      else case columns of
             [] \<Rightarrow> 0
           | keyColumn # _ \<Rightarrow>
               let validRows = filter (\<lambda>row. cellText row keyColumn \<noteq> []) rows
               in jsRound ((of_nat (length validRows) / of_nat (length rows)) * 100))"

definition calculateTimeliness ::
  "(string \<Rightarrow> int option) \<Rightarrow> int \<Rightarrow> CSVRow list \<Rightarrow> string \<Rightarrow> int" where
  "calculateTimeliness parseDate now rows dateColumnName =
     (if rows = [] then 0
      else let (validDates, totalAgeHours) = ageLoop parseDate now rows dateColumnName
           in if validDates = 0 then 50
              else ageScore (totalAgeHours / of_nat validDates))"

definition detectDateColumn ::
  "(string \<Rightarrow> int option) \<Rightarrow> CSVRow list \<Rightarrow> string list \<Rightarrow> string option" where
  \<comment> \<open>\<open>None\<close> is \<^verbatim>\<open>{ found: false }\<close>, \<open>Some col\<close> is \<^verbatim>\<open>{ found: true, columnName: col }\<close>\<close>
  "detectDateColumn parseDate rows columns =
     (if rows = [] then None
      else find (\<lambda>col.
             matchesDateKeyword col \<and>
             (let sampleValues = map (\<lambda>r. cellText r col) (take (min 10 (length rows)) rows);
                  dateLikeCount = length (filter (\<lambda>v. v \<noteq> [] \<and> parseDate v \<noteq> None) sampleValues)
              in (of_nat dateLikeCount :: rat) > of_nat (length sampleValues) * (1 / 2)))
           columns)"

record ScoringMetadata =
  columns :: "string list"
  rowCount :: nat
  columnCount :: nat
  hasDateColumn :: bool
  dateColumnName :: "string option"

definition prepareMetadata :: "(string \<Rightarrow> int option) \<Rightarrow> CSVRow list \<Rightarrow> ScoringMetadata" where
  "prepareMetadata parseDate rows =
     (case rows of
        [] \<Rightarrow> \<lparr>columns = [], rowCount = 0, columnCount = 0, hasDateColumn = False,
               dateColumnName = None\<rparr>
      | row0 # _ \<Rightarrow>
          let cols = keys row0;
              dateInfo = detectDateColumn parseDate rows cols
          in \<lparr>columns = cols, rowCount = length rows, columnCount = length cols,
              hasDateColumn = (dateInfo \<noteq> None), dateColumnName = dateInfo\<rparr>)"

record DimensionScores =
  completeness :: int
  uniqueness :: int
  consistency :: int
  validity :: int
  timeliness :: "int option"

definition computeScores ::
  "(string \<Rightarrow> int option) \<Rightarrow> int \<Rightarrow> CSVRow list \<Rightarrow> ScoringMetadata \<Rightarrow> DimensionScores" where
  "computeScores parseDate now rows metadata =
     \<lparr>completeness = calculateCompleteness rows (columns metadata),
      uniqueness = calculateUniqueness rows (columns metadata),
      consistency = calculateConsistency rows (columns metadata),
      validity = calculateValidity rows (columns metadata),
      timeliness =
        (case dateColumnName metadata of
           Some name \<Rightarrow>
             if hasDateColumn metadata \<and> name \<noteq> []
             then Some (calculateTimeliness parseDate now rows name) else None
         | None \<Rightarrow> None)\<rparr>"

definition calculateDQS :: "DimensionScores \<Rightarrow> int" where
  "calculateDQS scores =
     (let dimensions =
            [completeness scores, uniqueness scores, consistency scores, validity scores]
            @ (case timeliness scores of None \<Rightarrow> [] | Some t \<Rightarrow> [t])
      in if length dimensions = 0 then 0
         else let sum = fold (\<lambda>b a. a + b) dimensions 0
              in jsRound (of_int sum / of_nat (length dimensions)))"

subsection \<open>\<^verbatim>\<open>data-quality-functions.js\<close>: the dimension calculators\<close>

definition computeCompleteness :: "CSVRow list \<Rightarrow> int" where
  "computeCompleteness rows =
     (if rows = [] then 0
      else let cols = firstRowKeys rows
           in if cols = [] then 0
              else let (totalCells, nonEmptyCells) = countCells rows cols
                   in if totalCells = 0 then 0
                      else clamp100 (jsRound ((of_nat nonEmptyCells / of_nat totalCells) * 100)))"

definition computeUniqueness :: "CSVRow list \<Rightarrow> int" where
  "computeUniqueness rows =
     (if rows = [] then 0
      else let cols = firstRowKeys rows
           in if cols = [] then 0
              else let (totalUniqueness, columnCount) = uniquenessLoop rows cols
                   in if columnCount = 0 then 0
                      else clamp100 (jsRound (totalUniqueness / of_nat columnCount)))"

definition computeConsistency :: "CSVRow list \<Rightarrow> int" where
  "computeConsistency rows =
     (if rows = [] then 0
      else let cols = firstRowKeys rows
           in if cols = [] then 0
              else let (totalConsistency, columnCount) =
                         fold (\<lambda>col (totalConsistency, columnCount).
                                 let values = columnValues rows col
                                 in if length values = 0
                                    then (totalConsistency + 100, columnCount + 1)
                                    else if length values = 1
                                    then (totalConsistency + 100, columnCount + 1)
                                    else (totalConsistency + lengthDeviation values,
                                          columnCount + 1))
                           cols (0, 0 :: nat)
                   in if columnCount = 0 then 0
                      else clamp100 (jsRound (totalConsistency / of_nat columnCount)))"

definition computeValidity :: "CSVRow list \<Rightarrow> int" where
  "computeValidity rows =
     (if rows = [] then 0
      else case firstRowKeys rows of
             [] \<Rightarrow> 0
           | keyColumn # _ \<Rightarrow>
               let validRows = filter (\<lambda>row. cellNonEmpty row keyColumn) rows
               in clamp100 (jsRound ((of_nat (length validRows) / of_nat (length rows)) * 100)))"

definition computeTimeliness :: "(string \<Rightarrow> int option) \<Rightarrow> int \<Rightarrow> CSVRow list \<Rightarrow> int" where
  "computeTimeliness parseDate now rows =
     (if rows = [] then 50
      else let cols = firstRowKeys rows
           in if cols = [] then 50
              else case find matchesDateKeyword cols of
                     None \<Rightarrow> 50
                   | Some dateColumn \<Rightarrow>
                       if dateColumn = [] then 50
                       else let (validDates, totalAgeHours) =
                                  ageLoop parseDate now rows dateColumn
                            in if validDates = 0 then 50
                               else ageScore (totalAgeHours / of_nat validDates))"

definition computeAllScores ::
  "(string \<Rightarrow> int option) \<Rightarrow> int \<Rightarrow> CSVRow list \<Rightarrow> DimensionScores" where
  "computeAllScores parseDate now rows =
     \<lparr>completeness = computeCompleteness rows,
      uniqueness = computeUniqueness rows,
      consistency = computeConsistency rows,
      validity = computeValidity rows,
      timeliness = Some (computeTimeliness parseDate now rows)\<rparr>"

subsection \<open>\<^verbatim>\<open>data-quality-functions.js\<close>: the composite engine\<close>

text \<open>
  \<^verbatim>\<open>computeDQS\<close> is untyped: a property of \<^verbatim>\<open>dimensions\<close> or \<^verbatim>\<open>weights\<close> may be absent,
  and arithmetic on \<^verbatim>\<open>undefined\<close> yields \<^verbatim>\<open>NaN\<close>. A property value is therefore a
  \<open>jsval\<close>: absent, \<^verbatim>\<open>NaN\<close>, or a number. An object is read through the five
  dimension names only.
\<close>

datatype jsval = Undefined | NaN | Num rat

datatype dimension = Completeness | Uniqueness | Consistency | Validity | Timeliness

type_synonym jsobject = "dimension \<Rightarrow> jsval"

definition invalidScore :: "jsval \<Rightarrow> bool" where
  \<comment> \<open>\<^verbatim>\<open>typeof v !== 'number' || v < 0 || v > 100\<close>; every comparison with \<^verbatim>\<open>NaN\<close> is false\<close>
  "invalidScore v = (case v of Undefined \<Rightarrow> True | NaN \<Rightarrow> False | Num x \<Rightarrow> x < 0 \<or> x > 100)"

definition validScore :: "jsval \<Rightarrow> bool" where
  \<comment> \<open>\<^verbatim>\<open>typeof v === 'number' && v >= 0 && v <= 100\<close>\<close>
  "validScore v = (case v of Undefined \<Rightarrow> False | NaN \<Rightarrow> False | Num x \<Rightarrow> 0 \<le> x \<and> x \<le> 100)"

definition truthy :: "jsval \<Rightarrow> bool" where
  "truthy v = (case v of Undefined \<Rightarrow> False | NaN \<Rightarrow> False | Num x \<Rightarrow> x \<noteq> 0)"

definition orZero :: "jsval \<Rightarrow> rat" where
  \<comment> \<open>\<^verbatim>\<open>v || 0\<close>\<close>
  "orZero v = (case v of Undefined \<Rightarrow> 0 | NaN \<Rightarrow> 0 | Num x \<Rightarrow> x)"

definition jsMul :: "jsval \<Rightarrow> jsval \<Rightarrow> jsval" where
  "jsMul a b = (case (a, b) of (Num x, Num y) \<Rightarrow> Num (x * y) | _ \<Rightarrow> NaN)"

definition jsAdd :: "jsval \<Rightarrow> jsval \<Rightarrow> jsval" where
  "jsAdd a b = (case (a, b) of (Num x, Num y) \<Rightarrow> Num (x + y) | _ \<Rightarrow> NaN)"

definition mathRound :: "jsval \<Rightarrow> jsval" where
  "mathRound v = (case v of Num x \<Rightarrow> Num (of_int (jsRound x)) | _ \<Rightarrow> NaN)"

definition clampVal :: "jsval \<Rightarrow> jsval" where
  \<comment> \<open>\<^verbatim>\<open>Math.max(0, Math.min(100, v))\<close>, which is \<^verbatim>\<open>NaN\<close> for \<^verbatim>\<open>NaN\<close>\<close>
  "clampVal v = (case v of Num x \<Rightarrow> Num (max 0 (min 100 x)) | _ \<Rightarrow> NaN)"

definition mkObject :: "jsval \<Rightarrow> jsval \<Rightarrow> jsval \<Rightarrow> jsval \<Rightarrow> jsval \<Rightarrow> jsobject" where
  \<comment> \<open>the object literal \<^verbatim>\<open>{ completeness: c, uniqueness: u, consistency: s, validity: v,
      timeliness: t }\<close>, a property given as \<open>Undefined\<close> being left out\<close>
  "mkObject c u s v t d =
     (case d of Completeness \<Rightarrow> c | Uniqueness \<Rightarrow> u | Consistency \<Rightarrow> s | Validity \<Rightarrow> v
      | Timeliness \<Rightarrow> t)"

definition toObject :: "DimensionScores \<Rightarrow> jsobject" where
  \<comment> \<open>the scores as the object that \<^verbatim>\<open>computeDQS\<close> receives\<close>
  "toObject d =
     mkObject (Num (of_int (completeness d))) (Num (of_int (uniqueness d)))
       (Num (of_int (consistency d))) (Num (of_int (validity d)))
       (case timeliness d of None \<Rightarrow> Undefined | Some t \<Rightarrow> Num (of_int t))"

definition DEFAULT_WEIGHTS :: jsobject where
  "DEFAULT_WEIGHTS d =
     (case d of
        Completeness \<Rightarrow> Num (25 / 100)
      | Uniqueness \<Rightarrow> Num (20 / 100)
      | Consistency \<Rightarrow> Num (15 / 100)
      | Validity \<Rightarrow> Num (25 / 100)
      | Timeliness \<Rightarrow> Num (15 / 100))"

definition required :: "dimension list" where
  "required = [Completeness, Uniqueness, Consistency, Validity]"

definition scaleWeights :: "dimension list \<Rightarrow> rat \<Rightarrow> jsobject \<Rightarrow> jsobject" where
  \<comment> \<open>\<^verbatim>\<open>normalizedWeights.k *= scale\<close> for each listed \<open>k\<close>\<close>
  "scaleWeights ks scale w = fold (\<lambda>k w'. w'(k := jsMul (w' k) (Num scale))) ks w"

definition computeDQS :: "jsobject option \<Rightarrow> jsobject option \<Rightarrow> jsobject \<times> jsval" where
  \<comment> \<open>\<open>None\<close> for \<open>dimensionsArg\<close>: not an object; \<open>None\<close> for \<open>weightsArg\<close>: argument
      omitted, so \<^verbatim>\<open>DEFAULT_WEIGHTS\<close>. The result is \<^verbatim>\<open>{ dimensions, DQS }\<close>.\<close>
  "computeDQS dimensionsArg weightsArg =
     (case dimensionsArg of
        None \<Rightarrow> (\<lambda>_. Undefined, Num 0)
      | Some dimensions0 \<Rightarrow>
          let weights = (case weightsArg of None \<Rightarrow> DEFAULT_WEIGHTS | Some w \<Rightarrow> w);
              dimensions = fold (\<lambda>key d. if invalidScore (d key) then d(key := Num 0) else d)
                             required dimensions0;
              hasTimeliness = validScore (dimensions Timeliness);
              normalizedWeights0 = weights;
              totalWeight0 =
                orZero (normalizedWeights0 Completeness) + orZero (normalizedWeights0 Uniqueness)
                + orZero (normalizedWeights0 Consistency) + orZero (normalizedWeights0 Validity)
                + (if hasTimeliness then orZero (normalizedWeights0 Timeliness) else 0);
              (normalizedWeights1, totalWeight1) =
                (if \<not> hasTimeliness \<and> truthy (normalizedWeights0 Timeliness)
                 then let timelinessWeight = orZero (normalizedWeights0 Timeliness);
                          otherWeights = totalWeight0
                      in if otherWeights > 0
                         then let scaleFactor = (otherWeights + timelinessWeight) / otherWeights
                              in (scaleWeights required scaleFactor normalizedWeights0,
                                  otherWeights + timelinessWeight)
                         else (normalizedWeights0, totalWeight0)
                 else (normalizedWeights0, totalWeight0));
              (normalizedWeights, totalWeight) =
                (if totalWeight1 > 0 \<and> \<bar>totalWeight1 - 1\<bar> > 1 / 1000
                 then let scale = 1 / totalWeight1
                      in (scaleWeights
                            (required @ (if hasTimeliness then [Timeliness] else []))
                            scale normalizedWeights1,
                          1)
                 else (normalizedWeights1, totalWeight1))
          in if totalWeight = 0 then (dimensions, Num 0)
             else let weightedSum =
                        fold (\<lambda>k sum. jsAdd sum (jsMul (dimensions k) (normalizedWeights k)))
                          (required @ (if hasTimeliness then [Timeliness] else []))
                          (Num 0);
                      DQS = mathRound weightedSum;
                      clampedDQS = clampVal DQS
                  in (dimensions, clampedDQS))"

section \<open>The specification's vocabulary\<close>

text \<open>
  The definitions of this section follow the words of the specification, not the code:
  a score is an integer of the closed interval from 0 to 100, a mean is a sum divided by
  a count, and each dimension has the formula the specification gives for it. The
  theorems below compare them with the functions embedded from the source.
\<close>

definition isScore :: "int \<Rightarrow> bool" where
  "isScore n = (0 \<le> n \<and> n \<le> 100)"

definition mean :: "rat list \<Rightarrow> rat" where
  "mean xs = sum_list xs / of_nat (length xs)"

definition specColumnUniqueness :: "CSVRow list \<Rightarrow> string \<Rightarrow> rat" where
  \<comment> \<open>distinct values over non-empty values, times 100; 100 for a column without values\<close>
  "specColumnUniqueness rows col =
     (let values = columnValues rows col
      in if values = [] then 100
         else (of_nat (card (set values)) / of_nat (length values)) * 100)"

definition specUniqueness :: "CSVRow list \<Rightarrow> string list \<Rightarrow> int" where
  "specUniqueness rows cols = jsRound (mean (map (specColumnUniqueness rows) cols))"

definition specColumnConsistency :: "CSVRow list \<Rightarrow> string \<Rightarrow> rat" where
  \<comment> \<open>100 for no value, 100 for one value, else the length-deviation formula\<close>
  "specColumnConsistency rows col =
     (let values = columnValues rows col
      in if length values = 0 then 100
         else if length values = 1 then 100
         else let meanLength = mean (map (\<lambda>v. of_nat (length v)) values);
                  meanDeviation = mean (map (\<lambda>v. \<bar>of_nat (length v) - meanLength\<bar>) values)
              in max 0 (100 - (meanDeviation / max meanLength 1) * 100))"

definition specConsistency :: "CSVRow list \<Rightarrow> string list \<Rightarrow> int" where
  "specConsistency rows cols = jsRound (mean (map (specColumnConsistency rows) cols))"

definition specValidity :: "CSVRow list \<Rightarrow> string \<Rightarrow> int" where
  \<comment> \<open>rows whose trimmed key-field value is non-empty, over all rows, times 100, rounded\<close>
  "specValidity rows keyColumn =
     jsRound ((of_nat (length (filter (\<lambda>row. cellText row keyColumn \<noteq> []) rows))
               / of_nat (length rows)) * 100)"

definition parsedDates :: "(string \<Rightarrow> int option) \<Rightarrow> CSVRow list \<Rightarrow> string \<Rightarrow> int list" where
  \<comment> \<open>the dates of a column, the empty and the unparsable values skipped\<close>
  "parsedDates parseDate rows col =
     List.map_filter
       (\<lambda>row. let v = cellText row col in if v = [] then None else parseDate v) rows"

definition ageHours :: "int \<Rightarrow> int \<Rightarrow> rat" where
  \<comment> \<open>the age in hours of a date, relative to the clock\<close>
  "ageHours now t = of_int (now - t) / 3600000"

definition parsedAges :: "(string \<Rightarrow> int option) \<Rightarrow> int \<Rightarrow> CSVRow list \<Rightarrow> string \<Rightarrow> rat list" where
  "parsedAges parseDate now rows col = map (ageHours now) (parsedDates parseDate rows col)"

definition scoresInRange :: "DimensionScores \<Rightarrow> bool" where
  \<comment> \<open>every present value is a score\<close>
  "scoresInRange d =
     (isScore (completeness d) \<and> isScore (uniqueness d) \<and> isScore (consistency d)
      \<and> isScore (validity d)
      \<and> (case timeliness d of None \<Rightarrow> True | Some t \<Rightarrow> isScore t))"


section \<open>Auxiliary facts\<close>

subsection \<open>Rounding and ranges\<close>

lemma isScore_consts: "isScore 0" "isScore 30" "isScore 50" "isScore 70" "isScore 85" "isScore 95" "isScore 100"
  by (simp_all add: isScore_def)

lemma jsRound_range: "0 \<le> x \<Longrightarrow> x \<le> 100 \<Longrightarrow> isScore (jsRound x)"
  unfolding jsRound_def isScore_def by (simp add: le_floor_iff floor_le_iff)


lemma clamp100_id: "isScore n \<Longrightarrow> clamp100 n = n"
  by (simp add: clamp100_def isScore_def)

lemma clamp100_range: "isScore (clamp100 n)"
  by (simp add: clamp100_def isScore_def)

lemma ratio_percent_range:
  assumes "n \<le> t" "0 < t"
  shows "0 \<le> (of_nat n / of_nat t) * (100::rat) \<and> (of_nat n / of_nat t) * (100::rat) \<le> 100"
proof -
  have "(of_nat n :: rat) \<le> of_nat t" using assms by simp
  moreover have "(0::rat) < of_nat t" using assms by simp
  ultimately have "(of_nat n / of_nat t) * (100::rat) \<le> 100"
    by (simp add: field_simps)
  moreover have "0 \<le> (of_nat n / of_nat t) * (100::rat)" by simp
  ultimately show ?thesis by simp
qed

lemma fold_count:
  assumes "\<And>x t n. f x (t, n) = (Suc t, if P x then Suc n else n)"
  shows "fold f xs (t, n) = (t + length xs, n + length (filter P xs))"
  by (induction xs arbitrary: t n) (simp_all add: assms)

lemma fold_accumulate:
  assumes "\<And>x s c. f x (s, c) = (s + g x, c + k)"
  shows "fold f xs (s, c) = (s + sum_list (map g xs), c + length xs * k)"
  by (induction xs arbitrary: s c) (simp_all add: assms algebra_simps)

lemma fold_count_add:
  assumes "\<And>x t n. f x (t, n) = (t + k, n + g x)"
  shows "fold f xs (t, n) = (t + length xs * k, n + sum_list (map g xs))"
  by (induction xs arbitrary: t n) (simp_all add: assms algebra_simps)

lemma countCells_eq:
  "countCells rows cols =
     (length rows * length cols,
      sum_list (map (\<lambda>row. length (filter (cellNonEmpty row) cols)) rows))"
proof -
  have inner: "fold (\<lambda>col (totalCells, nonEmptyCells).
             (totalCells + 1,
              if cellNonEmpty row col then nonEmptyCells + 1 else nonEmptyCells)) cols (t, n)
     = (t + length cols, n + length (filter (cellNonEmpty row) cols))" for row t n
    by (rule fold_count) simp
  have "fold (\<lambda>row. fold (\<lambda>col (totalCells, nonEmptyCells).
             (totalCells + 1,
              if cellNonEmpty row col then nonEmptyCells + 1 else nonEmptyCells)) cols) rows (0, 0)
     = (0 + length rows * length cols,
        0 + sum_list (map (\<lambda>row. length (filter (cellNonEmpty row) cols)) rows))"
    by (rule fold_count_add) (rule inner)
  then show ?thesis by (simp add: countCells_def)
qed

lemma nonEmpty_le_total:
  "sum_list (map (\<lambda>row. length (filter (cellNonEmpty row) cols)) rows) \<le> length rows * length cols"
proof (induction rows)
  case Nil
  show ?case by simp
next
  case (Cons r rows)
  have "length (filter (cellNonEmpty r) cols)
        + sum_list (map (\<lambda>row. length (filter (cellNonEmpty row) cols)) rows)
        \<le> length cols + length rows * length cols"
    by (rule add_mono[OF length_filter_le Cons.IH])
  then show ?case by simp
qed

lemma calculateCompleteness_range: "isScore (calculateCompleteness rows cols)"
proof (cases "rows = [] \<or> cols = []")
  case True
  then show ?thesis by (auto simp: calculateCompleteness_def isScore_consts)
next
  case False
  then have pos: "0 < length rows * length cols" by simp
  show ?thesis
    using False pos ratio_percent_range[OF nonEmpty_le_total pos]
    by (simp add: calculateCompleteness_def countCells_eq jsRound_range)
qed

lemma computeCompleteness_range: "isScore (computeCompleteness rows)"
  by (simp add: computeCompleteness_def clamp100_range Let_def isScore_consts split: prod.splits)

lemma fold_plus: "fold (\<lambda>b a. a + g b) xs (s::rat) = s + sum_list (map g xs)"
  by (induction xs arbitrary: s) simp_all

lemma sumNumbers_eq: "sumNumbers xs = sum_list xs"
  using fold_plus[of "\<lambda>b. b" xs 0] by (simp add: sumNumbers_def)

lemma mean_range:
  assumes "\<And>x. x \<in> set xs \<Longrightarrow> 0 \<le> x \<and> x \<le> 100" "xs \<noteq> []"
  shows "0 \<le> mean xs \<and> mean xs \<le> 100"
proof -
  have lo: "0 \<le> sum_list xs" using assms(1) by (simp add: sum_list_nonneg)
  have "sum_list xs \<le> sum_list (map (\<lambda>_. 100) xs)"
    using assms(1) by (induction xs) (auto intro: add_mono)
  then have hi: "sum_list xs \<le> 100 * of_nat (length xs)"
    by (simp add: sum_list_triv)
  have pos: "(0::rat) < of_nat (length xs)" using assms(2) by simp
  show ?thesis unfolding mean_def using lo hi pos by (simp add: field_simps)
qed

lemma specColumnUniqueness_range:
  "0 < specColumnUniqueness rows col \<and> specColumnUniqueness rows col \<le> 100"
proof (cases "columnValues rows col = []")
  case True
  then show ?thesis by (simp add: specColumnUniqueness_def)
next
  case False
  let ?vs = "columnValues rows col"
  have le: "card (set ?vs) \<le> length ?vs" by (rule card_length)
  have pos: "0 < length ?vs" using False by simp
  have cpos: "0 < card (set ?vs)" using False by (simp add: card_gt_0_iff)
  have "0 < (of_nat (card (set ?vs)) / of_nat (length ?vs)) * (100::rat)"
    using pos cpos by simp
  with ratio_percent_range[OF le pos] False show ?thesis
    by (simp add: specColumnUniqueness_def Let_def)
qed

lemma uniquenessLoop_eq:
  "uniquenessLoop rows cols = (sum_list (map (specColumnUniqueness rows) cols), length cols)"
proof -
  have "fold (\<lambda>col (totalUniqueness, columnCount).
             let values = columnValues rows col;
                 uniqueness = (if length values > 0
                               then (of_nat (setSize values) / of_nat (length values)) * 100
                               else 100)
             in (totalUniqueness + uniqueness, columnCount + 1))
       cols (0, 0) = (0 + sum_list (map (specColumnUniqueness rows) cols), 0 + length cols * 1)"
    by (rule fold_accumulate)
       (simp add: Let_def specColumnUniqueness_def setSize_def length_remdups_card_conv)
  then show ?thesis by (simp add: uniquenessLoop_def)
qed

lemma calculateUniqueness_eq:
  "calculateUniqueness rows cols =
     (if rows = [] \<or> cols = [] then 0 else specUniqueness rows cols)"
  by (simp add: calculateUniqueness_def uniquenessLoop_eq specUniqueness_def mean_def)

lemma specUniqueness_range: "cols \<noteq> [] \<Longrightarrow> isScore (specUniqueness rows cols)"
proof -
  assume ne: "cols \<noteq> []"
  have "0 \<le> mean (map (specColumnUniqueness rows) cols)
        \<and> mean (map (specColumnUniqueness rows) cols) \<le> 100"
  proof (rule mean_range)
    fix x assume "x \<in> set (map (specColumnUniqueness rows) cols)"
    then obtain c where "x = specColumnUniqueness rows c" by auto
    then show "0 \<le> x \<and> x \<le> 100"
      using specColumnUniqueness_range[of rows c] by simp
  next
    show "map (specColumnUniqueness rows) cols \<noteq> []" using ne by simp
  qed
  then show ?thesis by (simp add: specUniqueness_def jsRound_range)
qed

lemma computeUniqueness_eq:
  "computeUniqueness rows =
     (if rows = [] \<or> firstRowKeys rows = [] then 0 else specUniqueness rows (firstRowKeys rows))"
proof (cases "rows = [] \<or> firstRowKeys rows = []")
  case True
  then show ?thesis by (auto simp: computeUniqueness_def)
next
  case False
  then have "computeUniqueness rows = clamp100 (specUniqueness rows (firstRowKeys rows))"
    by (simp add: computeUniqueness_def uniquenessLoop_eq specUniqueness_def mean_def Let_def)
  with False show ?thesis by (simp add: clamp100_id specUniqueness_range)
qed

lemma lengthDeviation_eq:
  "lengthDeviation vs =
     (let meanLength = mean (map (\<lambda>v. of_nat (length v)) vs);
          meanDeviation = mean (map (\<lambda>v. \<bar>of_nat (length v) - meanLength\<bar>) vs)
      in max 0 (100 - (meanDeviation / max meanLength 1) * 100))"
  by (simp add: lengthDeviation_def Let_def sumNumbers_eq mean_def fold_plus comp_def)

lemma lengthDeviation_range: "0 \<le> lengthDeviation vs \<and> lengthDeviation vs \<le> 100"
proof -
  define m where "m = mean (map (\<lambda>v. of_nat (length v)) vs)"
  define d where "d = mean (map (\<lambda>v. \<bar>of_nat (length v) - m\<bar>) vs)"
  define q where "q = d / max m 1"
  have "0 \<le> sum_list (map (\<lambda>v. \<bar>of_nat (length v) - m\<bar>) vs)"
    by (rule sum_list_nonneg) auto
  then have d: "0 \<le> d" by (simp add: d_def mean_def)
  have "(0::rat) < max m 1" by simp
  with d have "0 \<le> q" unfolding q_def by (rule divide_nonneg_pos)
  then have "0 \<le> q * 100" by simp
  then have "max 0 (100 - q * 100) \<le> 100 \<and> 0 \<le> max 0 (100 - q * 100)" by simp
  moreover have "lengthDeviation vs = max 0 (100 - q * 100)"
    by (simp add: lengthDeviation_eq Let_def q_def d_def m_def)
  ultimately show ?thesis by simp
qed

lemma lengthDeviation_single: "length vs = 1 \<Longrightarrow> lengthDeviation vs = 100"
proof -
  assume "length vs = 1"
  then obtain v where "vs = [v]" by (cases vs) auto
  then show ?thesis by (simp add: lengthDeviation_eq mean_def)
qed

lemma specColumnConsistency_range:
  "0 \<le> specColumnConsistency rows col \<and> specColumnConsistency rows col \<le> 100"
  using lengthDeviation_range[of "columnValues rows col"]
  by (simp add: specColumnConsistency_def lengthDeviation_eq Let_def)

lemma specColumnConsistency_code:
  "specColumnConsistency rows col =
     (let values = columnValues rows col
      in if length values = 0 then 100 else lengthDeviation values)"
  using lengthDeviation_single[of "columnValues rows col"]
  by (simp add: specColumnConsistency_def lengthDeviation_eq Let_def)

lemma specConsistency_range: "cols \<noteq> [] \<Longrightarrow> isScore (specConsistency rows cols)"
proof -
  assume ne: "cols \<noteq> []"
  have "0 \<le> mean (map (specColumnConsistency rows) cols)
        \<and> mean (map (specColumnConsistency rows) cols) \<le> 100"
  proof (rule mean_range)
    fix x assume "x \<in> set (map (specColumnConsistency rows) cols)"
    then obtain c where "x = specColumnConsistency rows c" by auto
    then show "0 \<le> x \<and> x \<le> 100"
      using specColumnConsistency_range[of rows c] by simp
  next
    show "map (specColumnConsistency rows) cols \<noteq> []" using ne by simp
  qed
  then show ?thesis by (simp add: specConsistency_def jsRound_range)
qed

lemma calculateConsistency_eq:
  "calculateConsistency rows cols =
     (if rows = [] \<or> cols = [] then 0 else specConsistency rows cols)"
proof -
  have "fold (\<lambda>col (totalConsistency, columnCount).
                         let values = columnValues rows col
                         in if length values = 0
                            then (totalConsistency + 100, columnCount + 1)
                            else (totalConsistency + lengthDeviation values, columnCount + 1))
                   cols (0, 0 :: nat)
        = (0 + sum_list (map (specColumnConsistency rows) cols), 0 + length cols * 1)"
    by (rule fold_accumulate) (simp add: Let_def specColumnConsistency_code)
  then show ?thesis
    by (simp add: calculateConsistency_def specConsistency_def mean_def)
qed

lemma computeConsistency_eq:
  "computeConsistency rows =
     (if rows = [] \<or> firstRowKeys rows = [] then 0
      else specConsistency rows (firstRowKeys rows))"
proof (cases "rows = [] \<or> firstRowKeys rows = []")
  case True
  then show ?thesis by (auto simp: computeConsistency_def)
next
  case False
  have "fold (\<lambda>col (totalConsistency, columnCount).
                                 let values = columnValues rows col
                                 in if length values = 0
                                    then (totalConsistency + 100, columnCount + 1)
                                    else if length values = 1
                                    then (totalConsistency + 100, columnCount + 1)
                                    else (totalConsistency + lengthDeviation values,
                                          columnCount + 1))
                           (firstRowKeys rows) (0, 0 :: nat)
        = (0 + sum_list (map (specColumnConsistency rows) (firstRowKeys rows)),
           0 + length (firstRowKeys rows) * 1)"
    by (rule fold_accumulate)
       (simp add: Let_def specColumnConsistency_def lengthDeviation_eq)
  with False have "computeConsistency rows = clamp100 (specConsistency rows (firstRowKeys rows))"
    by (simp add: computeConsistency_def specConsistency_def mean_def Let_def)
  with False show ?thesis by (simp add: clamp100_id specConsistency_range)
qed

lemma trim_Nil: "trim [] = []"
  by (simp add: trim_def)

lemma cellNonEmpty_iff: "cellNonEmpty row col \<longleftrightarrow> cellText row col \<noteq> []"
  by (simp add: cellNonEmpty_def cellText_def trim_Nil split: option.splits)

lemma specValidity_range: "rows \<noteq> [] \<Longrightarrow> isScore (specValidity rows k)"
proof -
  assume "rows \<noteq> []"
  then have pos: "0 < length rows" by simp
  have le: "length (filter (\<lambda>row. cellText row k \<noteq> []) rows) \<le> length rows"
    by (rule length_filter_le)
  show ?thesis unfolding specValidity_def
    using ratio_percent_range[OF le pos] by (simp add: jsRound_range)
qed

lemma calculateValidity_eq:
  "calculateValidity rows cols =
     (if rows = [] then 0 else case cols of [] \<Rightarrow> 0 | k # _ \<Rightarrow> specValidity rows k)"
  by (simp add: calculateValidity_def specValidity_def split: list.splits)

lemma computeValidity_eq:
  "computeValidity rows =
     (if rows = [] then 0
      else case firstRowKeys rows of [] \<Rightarrow> 0 | k # _ \<Rightarrow> specValidity rows k)"
proof (cases "rows = []")
  case True
  then show ?thesis by (simp add: computeValidity_def)
next
  case False
  show ?thesis
  proof (cases "firstRowKeys rows")
    case Nil
    with False show ?thesis by (simp add: computeValidity_def)
  next
    case (Cons k ks)
    with False have "computeValidity rows = clamp100 (specValidity rows k)"
      by (simp add: computeValidity_def specValidity_def cellNonEmpty_iff)
    with False Cons show ?thesis by (simp add: clamp100_id specValidity_range)
  qed
qed

lemma fold_option_accumulate:
  assumes "\<And>x n s. f x (n, s) = (case h x of None \<Rightarrow> (n, s) | Some t \<Rightarrow> (Suc n, s + g t))"
  shows "fold f xs (n, s) =
           (n + length (List.map_filter h xs), s + sum_list (map g (List.map_filter h xs)))"
  by (induction xs arbitrary: n s)
     (simp_all add: assms algebra_simps split: option.splits)

lemma ageLoop_eq:
  "ageLoop parseDate now rows col =
     (length (parsedAges parseDate now rows col), sum_list (parsedAges parseDate now rows col))"
proof -
  have "fold (\<lambda>row (validDates, totalAgeHours).
             let dateValue = cellText row col
             in if dateValue = [] then (validDates, totalAgeHours)
                else (case parseDate dateValue of
                        None \<Rightarrow> (validDates, totalAgeHours)
                      | Some t \<Rightarrow>
                          let ageMs = now - t;
                              ageHours = of_int ageMs / (1000 * 60 * 60)
                          in (validDates + 1, totalAgeHours + ageHours)))
       rows (0, 0)
     = (0 + length (List.map_filter
                      (\<lambda>row. let v = cellText row col in if v = [] then None else parseDate v) rows),
        0 + sum_list (map (ageHours now) (List.map_filter
                      (\<lambda>row. let v = cellText row col in if v = [] then None else parseDate v) rows)))"
    by (rule fold_option_accumulate) (simp add: Let_def ageHours_def split: option.splits)
  then show ?thesis by (simp add: ageLoop_def parsedAges_def parsedDates_def)
qed

lemma ageScore_range: "isScore (ageScore m)"
  by (simp add: ageScore_def isScore_consts)

lemma calculateTimeliness_eq:
  "calculateTimeliness parseDate now rows col =
     (if rows = [] then 0
      else if parsedAges parseDate now rows col = [] then 50
      else ageScore (mean (parsedAges parseDate now rows col)))"
  by (simp add: calculateTimeliness_def ageLoop_eq mean_def)

lemma not_matchesDateKeyword_Nil: "\<not> matchesDateKeyword []"
  by (simp add: matchesDateKeyword_def dateKeywords_def strIncludes_def toLowerCase_def)

lemma find_matchesDateKeyword_nonempty:
  "find matchesDateKeyword cols = Some col \<Longrightarrow> col \<noteq> []"
  using not_matchesDateKeyword_Nil by (auto simp: find_Some_iff)

lemma computeTimeliness_eq:
  "computeTimeliness parseDate now rows =
     (if rows = [] then 50
      else case find matchesDateKeyword (firstRowKeys rows) of
             None \<Rightarrow> 50
           | Some col \<Rightarrow>
               if parsedAges parseDate now rows col = [] then 50
               else ageScore (mean (parsedAges parseDate now rows col)))"
  by (auto simp: computeTimeliness_def ageLoop_eq mean_def Let_def
        dest: find_matchesDateKeyword_nonempty split: option.splits)

lemma calculateTimeliness_range: "isScore (calculateTimeliness parseDate now rows col)"
  by (simp add: calculateTimeliness_eq isScore_consts ageScore_range)

lemma computeTimeliness_range: "isScore (computeTimeliness parseDate now rows)"
  by (simp add: computeTimeliness_eq isScore_consts ageScore_range split: option.splits)

subsection \<open>Every calculator returns a score\<close>

lemma calculateUniqueness_range: "isScore (calculateUniqueness rows cols)"
  by (simp add: calculateUniqueness_eq isScore_consts specUniqueness_range)

lemma computeUniqueness_range: "isScore (computeUniqueness rows)"
  by (simp add: computeUniqueness_eq isScore_consts specUniqueness_range)

lemma calculateConsistency_range: "isScore (calculateConsistency rows cols)"
  by (simp add: calculateConsistency_eq isScore_consts specConsistency_range)

lemma computeConsistency_range: "isScore (computeConsistency rows)"
  by (simp add: computeConsistency_eq isScore_consts specConsistency_range)

lemma calculateValidity_range: "isScore (calculateValidity rows cols)"
  by (simp add: calculateValidity_eq isScore_consts specValidity_range split: list.splits)

lemma computeValidity_range: "isScore (computeValidity rows)"
  by (simp add: computeValidity_eq isScore_consts specValidity_range split: list.splits)

lemma computeAllScores_range: "scoresInRange (computeAllScores parseDate now rows)"
  by (simp add: scoresInRange_def computeAllScores_def computeCompleteness_range
        computeUniqueness_range computeConsistency_range computeValidity_range
        computeTimeliness_range)

lemma computeScores_range: "scoresInRange (computeScores parseDate now rows metadata)"
  by (simp add: scoresInRange_def computeScores_def calculateCompleteness_range
        calculateUniqueness_range calculateConsistency_range calculateValidity_range
        calculateTimeliness_range split: option.splits)

subsection \<open>When a rounded mean is zero\<close>



subsection \<open>Validity reads one column\<close>




subsection \<open>Timeliness through the detected column\<close>






subsection \<open>The composite engine on well-formed objects\<close>

lemma validate_valid:
  assumes "\<not> invalidScore (dims Completeness)" "\<not> invalidScore (dims Uniqueness)"
    "\<not> invalidScore (dims Consistency)" "\<not> invalidScore (dims Validity)"
  shows "fold (\<lambda>key d. if invalidScore (d key) then d(key := Num 0) else d) required dims = dims"
  using assms by (simp add: required_def)

lemma clampVal_mathRound: "clampVal (mathRound (Num x)) = Num (of_int (clamp100 (jsRound x)))"
  by (simp add: clampVal_def mathRound_def clamp100_def)

lemma computeDQS_five:
  assumes d: "dims Completeness = Num c" "dims Uniqueness = Num u" "dims Consistency = Num s"
      "dims Validity = Num v" "dims Timeliness = Num t"
    and r: "0 \<le> c" "c \<le> 100" "0 \<le> u" "u \<le> 100" "0 \<le> s" "s \<le> 100" "0 \<le> v" "v \<le> 100"
      "0 \<le> t" "t \<le> 100"
    and w: "w Completeness = Num wc" "w Uniqueness = Num wu" "w Consistency = Num ws"
      "w Validity = Num wv" "w Timeliness = Num wt"
    and tot: "wc + wu + ws + wv + wt = 1"
  shows "computeDQS (Some dims) (Some w)
           = (dims, Num (of_int (clamp100 (jsRound (c * wc + u * wu + s * ws + v * wv + t * wt)))))"
proof -
  have val: "fold (\<lambda>key d. if invalidScore (d key) then d(key := Num 0) else d) required dims = dims"
    by (rule validate_valid) (simp_all add: d r invalidScore_def not_less)
  have ht: "validScore (dims Timeliness)" by (simp add: d r validScore_def)
  have "computeDQS (Some dims) (Some w)
          = (dims, clampVal (mathRound (Num (c * wc + u * wu + s * ws + v * wv + t * wt))))"
    apply (simp only: computeDQS_def option.case Let_def val)
    apply (simp add: d w r tot validScore_def orZero_def required_def jsAdd_def jsMul_def)
    done
  then show ?thesis by (simp only: clampVal_mathRound)
qed


lemma truthy_orZero: "truthy x \<longleftrightarrow> orZero x \<noteq> 0"
  by (simp add: truthy_def orZero_def split: jsval.splits)

lemma orZero_Num: "orZero (Num x) = x"
  by (simp add: orZero_def)

lemma computeDQS_four:
  assumes d: "dims Completeness = Num c" "dims Uniqueness = Num u" "dims Consistency = Num s"
      "dims Validity = Num v"
    and nt: "\<not> validScore (dims Timeliness)"
    and r: "0 \<le> c" "c \<le> 100" "0 \<le> u" "u \<le> 100" "0 \<le> s" "s \<le> 100" "0 \<le> v" "v \<le> 100"
    and w: "w Completeness = Num wc" "w Uniqueness = Num wu" "w Consistency = Num ws"
      "w Validity = Num wv"
    and T: "orZero (w Timeliness) = T"
    and pos: "0 < wc + wu + ws + wv" "0 \<le> T"
  shows "computeDQS (Some dims) (Some w)
           = (dims, Num (of_int (clamp100 (jsRound
                (if \<bar>wc + wu + ws + wv + T - 1\<bar> > 1 / 1000
                 then (c * wc + u * wu + s * ws + v * wv) / (wc + wu + ws + wv)
                 else (c * wc + u * wu + s * ws + v * wv)
                        * ((wc + wu + ws + wv + T) / (wc + wu + ws + wv)))))))"
proof -
  define W where "W = wc + wu + ws + wv"
  define S where "S = c * wc + u * wu + s * ws + v * wv"
  have Wpos: "0 < W" using pos by (simp add: W_def)
  have WTpos: "0 < W + T" using pos by (simp add: W_def)
  have val: "fold (\<lambda>key d. if invalidScore (d key) then d(key := Num 0) else d) required dims = dims"
    by (rule validate_valid) (simp_all add: d r invalidScore_def not_less)
  have k1: "x * (1 / W) = x / W" for x by simp
  have k2: "x * ((W + T) / W) * (1 / (W + T)) = x / W" for x
    using Wpos WTpos by (simp add: divide_simps)
  have sumW: "c * (wc / W) + u * (wu / W) + s * (ws / W) + v * (wv / W) = S / W"
    by (simp add: S_def add_divide_distrib)
  have sumF: "c * (wc * F) + u * (wu * F) + s * (ws * F) + v * (wv * F) = S * F" for F
    by (simp add: S_def algebra_simps)
  have "computeDQS (Some dims) (Some w)
          = (dims, clampVal (mathRound (Num
                (if \<bar>W + T - 1\<bar> > 1 / 1000 then S / W else S * ((W + T) / W)))))"
  proof (cases "T = 0")
    case True
    have nt': "\<not> truthy (w Timeliness)" using True T by (simp add: truthy_orZero)
    show ?thesis
    proof (cases "\<bar>W + T - 1\<bar> > 1 / 1000")
      case True
      with \<open>T = 0\<close> Wpos have "computeDQS (Some dims) (Some w)
          = (dims, clampVal (mathRound (Num
              (c * (wc * (1 / W)) + u * (wu * (1 / W)) + s * (ws * (1 / W)) + v * (wv * (1 / W))))))"
        apply (simp only: computeDQS_def option.case Let_def val)
        apply (simp add: d w nt nt' orZero_Num required_def jsAdd_def jsMul_def
                 scaleWeights_def W_def[symmetric])
        done
      then show ?thesis using True by (simp only: k1 sumW if_True)
    next
      case False
      with \<open>T = 0\<close> Wpos have "computeDQS (Some dims) (Some w)
          = (dims, clampVal (mathRound (Num (c * wc + u * wu + s * ws + v * wv))))"
        apply (simp only: computeDQS_def option.case Let_def val)
        apply (simp add: d w nt nt' orZero_Num required_def jsAdd_def jsMul_def
                 scaleWeights_def W_def[symmetric])
        done
      moreover have "S * ((W + T) / W) = S" using \<open>T = 0\<close> Wpos by simp
      ultimately show ?thesis using False by (simp only: S_def if_False)
    qed
  next
    case False
    have t: "truthy (w Timeliness)" using False T by (simp add: truthy_orZero)
    show ?thesis
    proof (cases "\<bar>W + T - 1\<bar> > 1 / 1000")
      case True
      with Wpos WTpos have "computeDQS (Some dims) (Some w)
          = (dims, clampVal (mathRound (Num
              (c * (wc * ((W + T) / W) * (1 / (W + T))) + u * (wu * ((W + T) / W) * (1 / (W + T)))
               + s * (ws * ((W + T) / W) * (1 / (W + T)))
               + v * (wv * ((W + T) / W) * (1 / (W + T)))))))"
        apply (simp only: computeDQS_def option.case Let_def val)
        apply (simp add: d w nt t T orZero_Num required_def jsAdd_def jsMul_def
                 scaleWeights_def W_def[symmetric])
        done
      then show ?thesis using True by (simp only: k2 sumW if_True)
    next
      case False
      with Wpos WTpos have "computeDQS (Some dims) (Some w)
          = (dims, clampVal (mathRound (Num
              (c * (wc * ((W + T) / W)) + u * (wu * ((W + T) / W))
               + s * (ws * ((W + T) / W)) + v * (wv * ((W + T) / W))))))"
        apply (simp only: computeDQS_def option.case Let_def val)
        apply (simp add: d w nt t T orZero_Num required_def jsAdd_def jsMul_def
                 scaleWeights_def W_def[symmetric])
        done
      then show ?thesis using False by (simp only: sumF if_False)
    qed
  qed
  then show ?thesis by (simp only: clampVal_mathRound W_def S_def)
qed

lemma computeDQS_default: "computeDQS dimensionsArg None = computeDQS dimensionsArg (Some DEFAULT_WEIGHTS)"
  by (simp only: computeDQS_def Let_def option.case)


subsection \<open>A missing key reads as an empty cell\<close>

lemma missing_key_reads_as_empty:
  "cell row col = None \<Longrightarrow> cellText row col = [] \<and> \<not> cellNonEmpty row col"
  by (simp add: cellText_def cellNonEmpty_def trim_Nil)

lemma empty_cell_reads_as_empty:
  "cell row col = Some [] \<Longrightarrow> cellText row col = [] \<and> \<not> cellNonEmpty row col"
  by (simp add: cellText_def cellNonEmpty_def trim_Nil)

subsection \<open>The composite engines on the scores of the calculators\<close>

lemma computeDQS_default_wellformed:
  assumes "scoresInRange d"
  shows "\<exists>n. computeDQS (Some (toObject d)) None = (toObject d, Num (of_int n)) \<and> isScore n"
proof (cases "timeliness d")
  case None
  have "computeDQS (Some (toObject d)) (Some DEFAULT_WEIGHTS)
          = (toObject d, Num (of_int (clamp100 (jsRound
                (if \<bar>25 / 100 + 20 / 100 + 15 / 100 + 25 / 100 + 15 / 100 - 1\<bar> > (1 / 1000 :: rat)
                 then (of_int (completeness d) * (25 / 100) + of_int (uniqueness d) * (20 / 100)
                       + of_int (consistency d) * (15 / 100) + of_int (validity d) * (25 / 100))
                      / (25 / 100 + 20 / 100 + 15 / 100 + 25 / 100)
                 else (of_int (completeness d) * (25 / 100) + of_int (uniqueness d) * (20 / 100)
                       + of_int (consistency d) * (15 / 100) + of_int (validity d) * (25 / 100))
                      * ((25 / 100 + 20 / 100 + 15 / 100 + 25 / 100 + 15 / 100)
                         / (25 / 100 + 20 / 100 + 15 / 100 + 25 / 100)))))))"
    using assms None
    by (intro computeDQS_four)
       (simp_all add: toObject_def mkObject_def scoresInRange_def isScore_def
          DEFAULT_WEIGHTS_def validScore_def orZero_def)
  then show ?thesis
    using clamp100_range by (metis computeDQS_default)
next
  case (Some t)
  have "computeDQS (Some (toObject d)) (Some DEFAULT_WEIGHTS)
          = (toObject d, Num (of_int (clamp100 (jsRound
               (of_int (completeness d) * (25 / 100) + of_int (uniqueness d) * (20 / 100)
                + of_int (consistency d) * (15 / 100) + of_int (validity d) * (25 / 100)
                + of_int t * (15 / 100))))))"
    using assms Some
    by (intro computeDQS_five)
       (simp_all add: toObject_def mkObject_def scoresInRange_def isScore_def
          DEFAULT_WEIGHTS_def)
  then show ?thesis
    using clamp100_range by (metis computeDQS_default)
qed

lemma calculateDQS_range:
  assumes "scoresInRange d"
  shows "isScore (calculateDQS d)"
proof (cases "timeliness d")
  case None
  have "0 \<le> completeness d + uniqueness d + consistency d + validity d"
       "completeness d + uniqueness d + consistency d + validity d \<le> 400"
    using assms by (simp_all add: scoresInRange_def isScore_def)
  then have "0 \<le> (of_int (completeness d + uniqueness d + consistency d + validity d) :: rat) / 4"
    "(of_int (completeness d + uniqueness d + consistency d + validity d) :: rat) / 4 \<le> 100"
    by simp_all
  then have "isScore (jsRound (of_int (completeness d + uniqueness d + consistency d + validity d) / 4))"
    by (rule jsRound_range)
  with None show ?thesis by (simp add: calculateDQS_def)
next
  case (Some t)
  have "0 \<le> completeness d + uniqueness d + consistency d + validity d + t"
       "completeness d + uniqueness d + consistency d + validity d + t \<le> 500"
    using assms Some by (simp_all add: scoresInRange_def isScore_def)
  then have "0 \<le> (of_int (completeness d + uniqueness d + consistency d + validity d + t) :: rat) / 5"
    "(of_int (completeness d + uniqueness d + consistency d + validity d + t) :: rat) / 5 \<le> 100"
    by simp_all
  then have "isScore (jsRound (of_int (completeness d + uniqueness d + consistency d + validity d + t) / 5))"
    by (rule jsRound_range)
  with Some show ?thesis by (simp add: calculateDQS_def)
qed

lemma scoring_pipelines_wellformed:
  "(\<exists>n. computeDQS (Some (toObject (computeAllScores parseDate now rows))) None
          = (toObject (computeAllScores parseDate now rows), Num (of_int n)) \<and> isScore n)
   \<and> isScore (calculateDQS (computeScores parseDate now rows (prepareMetadata parseDate rows)))"
  using computeDQS_default_wellformed[OF computeAllScores_range]
    calculateDQS_range[OF computeScores_range]
  by simp

section \<open>The claims\<close>







text \<open>
  Claim C3. \<^verbatim>\<open>computeAllScores\<close> on the empty row list returns completeness 0,
  uniqueness 0, consistency 0, validity 0 and timeliness 50; and for every row list none
  of whose column names (the keys of the first row) contains a date keyword, the
  timeliness score is exactly 50, whatever the rows hold.
\<close>

theorem C3_empty_dataset_and_no_date_column:
  "computeAllScores parseDate now []
     = \<lparr>completeness = 0, uniqueness = 0, consistency = 0, validity = 0, timeliness = Some 50\<rparr>
   \<and> ((\<forall>col \<in> set (firstRowKeys rows). \<not> matchesDateKeyword col)
        \<longrightarrow> computeTimeliness parseDate now rows = 50
            \<and> timeliness (computeAllScores parseDate now rows) = Some 50)"
proof -
  have empty: "computeAllScores parseDate now []
     = \<lparr>completeness = 0, uniqueness = 0, consistency = 0, validity = 0, timeliness = Some 50\<rparr>"
    by (simp add: computeAllScores_def computeCompleteness_def computeUniqueness_def
          computeConsistency_def computeValidity_def computeTimeliness_def)
  have general: "computeTimeliness parseDate now rows = 50"
    if "\<forall>col \<in> set (firstRowKeys rows). \<not> matchesDateKeyword col"
  proof -
    from that have "find matchesDateKeyword (firstRowKeys rows) = None"
      by (simp add: find_None_iff)
    then show ?thesis by (simp add: computeTimeliness_eq)
  qed
  show ?thesis using empty general by (simp add: computeAllScores_def)
qed

text \<open>An instance: a column \<^verbatim>\<open>name\<close> that holds a date, yet no date keyword in its name.\<close>

theorem C3_empty_dataset_and_no_date_column_witness:
  "firstRowKeys [[(''id'', ''7''), (''name'', ''2024-01-15'')], [(''id'', ''8'')]] = [''id'', ''name'']
   \<and> \<not> matchesDateKeyword ''id'' \<and> \<not> matchesDateKeyword ''name''
   \<and> computeTimeliness (\<lambda>s. Some 0) 0 [[(''id'', ''7''), (''name'', ''2024-01-15'')], [(''id'', ''8'')]] = 50"
proof -
  have k: "firstRowKeys [[(''id'', ''7''), (''name'', ''2024-01-15'')], [(''id'', ''8'')]] = [''id'', ''name'']"
    by (simp add: firstRowKeys_def keys_def)
  have m: "\<not> matchesDateKeyword ''id''" "\<not> matchesDateKeyword ''name''"
    by code_simp+
  from k m have h: "\<forall>col \<in> set (firstRowKeys [[(''id'', ''7''), (''name'', ''2024-01-15'')], [(''id'', ''8'')]]).
      \<not> matchesDateKeyword col"
    by simp
  with C3_empty_dataset_and_no_date_column
         [of "\<lambda>s. Some 0" 0 "[[(''id'', ''7''), (''name'', ''2024-01-15'')], [(''id'', ''8'')]]"]
  have "computeTimeliness (\<lambda>s. Some 0) 0 [[(''id'', ''7''), (''name'', ''2024-01-15'')], [(''id'', ''8'')]] = 50"
    by blast
  with k m show ?thesis by simp
qed

text \<open>
  Claim C4. For every row list, of any size and with any cell contents, every dimension
  score is an integer between 0 and 100 inclusive: those of \<^verbatim>\<open>computeAllScores\<close> and of
  the standalone calculators \<^verbatim>\<open>computeCompleteness\<close>, \<^verbatim>\<open>computeUniqueness\<close>,
  \<^verbatim>\<open>computeConsistency\<close>, \<^verbatim>\<open>computeValidity\<close> and \<^verbatim>\<open>computeTimeliness\<close>, and likewise
  those of \<^verbatim>\<open>computeScores\<close> and of the calculators of \<^verbatim>\<open>scoring-engine.ts\<close>, for any
  column list, clock and date parser.
\<close>

theorem C4_scores_in_range:
  "scoresInRange (computeAllScores parseDate now rows)
   \<and> isScore (computeCompleteness rows) \<and> isScore (computeUniqueness rows)
   \<and> isScore (computeConsistency rows) \<and> isScore (computeValidity rows)
   \<and> isScore (computeTimeliness parseDate now rows)
   \<and> scoresInRange (computeScores parseDate now rows metadata)
   \<and> isScore (calculateCompleteness rows cols) \<and> isScore (calculateUniqueness rows cols)
   \<and> isScore (calculateConsistency rows cols) \<and> isScore (calculateValidity rows cols)
   \<and> isScore (calculateTimeliness parseDate now rows col)"
  by (simp add: computeAllScores_range computeScores_range
        computeCompleteness_range computeUniqueness_range computeConsistency_range
        computeValidity_range computeTimeliness_range
        calculateCompleteness_range calculateUniqueness_range calculateConsistency_range
        calculateValidity_range calculateTimeliness_range)

text \<open>An instance: two rows, the second lacking the key \<^verbatim>\<open>name\<close>.\<close>

theorem C4_scores_in_range_witness:
  "scoresInRange (computeAllScores (\<lambda>s. None) 0 [[(''id'', ''1''), (''name'', '' '')], [(''id'', ''1'')]])
   \<and> computeAllScores (\<lambda>s. None) 0 [[(''id'', ''1''), (''name'', '' '')], [(''id'', ''1'')]]
       = \<lparr>completeness = 50, uniqueness = 75, consistency = 100, validity = 100,
          timeliness = Some 50\<rparr>"
proof -
  have "scoresInRange (computeAllScores (\<lambda>s. None) 0 [[(''id'', ''1''), (''name'', '' '')], [(''id'', ''1'')]])"
    using C4_scores_in_range[of "\<lambda>s. None" 0 "[[(''id'', ''1''), (''name'', '' '')], [(''id'', ''1'')]]"]
    by simp
  moreover have "computeAllScores (\<lambda>s. None) 0 [[(''id'', ''1''), (''name'', '' '')], [(''id'', ''1'')]]
       = \<lparr>completeness = 50, uniqueness = 75, consistency = 100, validity = 100,
          timeliness = Some 50\<rparr>"
    by code_simp
  ultimately show ?thesis by simp
qed

text \<open>
  Claim C5 says that the composite engine returns a well-formed numeric result for every
  input. The weight object of \<^verbatim>\<open>computeDQS\<close> may leave the timeliness weight out (the
  total weight counts an absent weight as 0), yet the weighted sum then multiplies the
  timeliness score by \<^verbatim>\<open>undefined\<close>: on five scores of 80 and four weights of 0.25 the
  DQS is \<^verbatim>\<open>NaN\<close>.
\<close>

theorem C5_omitted_weight_yields_NaN:
  "snd (computeDQS (Some (mkObject (Num 80) (Num 80) (Num 80) (Num 80) (Num 80)))
          (Some (mkObject (Num (1 / 4)) (Num (1 / 4)) (Num (1 / 4)) (Num (1 / 4)) Undefined)))
     = NaN"
  by code_simp














end
